theory Spec2Isabelle
  imports Main "HOL-Library.Char_ord" "HOL-Library.List_Lexorder"
begin

section \<open>Client-side authentication of the IOLTA manager\<close>

text \<open>
  A shallow embedding of \<^verbatim>\<open>src/lib/auth/local-auth.ts\<close>, of the localStorage helpers
  it calls (\<^verbatim>\<open>lib/storage/local-storage-helpers\<close>), of the Dexie tables it reads and
  writes (\<^verbatim>\<open>lib/storage/db\<close>) and of the sign-in and sign-up wrappers of
  \<^verbatim>\<open>src/lib/auth/auth-context.tsx\<close>.

  Conventions of the embedding:
  \<^item> a \<^verbatim>\<open>Date\<close> is its number of milliseconds since the epoch, an \<open>int\<close>
    (invalid dates are not represented);
  \<^item> a JavaScript string is a HOL \<open>string\<close>, a character beyond ASCII standing as the
    bytes of its UTF-8 encoding; \<^verbatim>\<open>String.prototype.toLowerCase\<close> is the platform's
    and is a component of the world, about which nothing is assumed;
  \<^item> an \<^verbatim>\<open>async\<close> function is a state transformer on the \<open>world\<close> below: it
    returns its result (a rejected promise is \<open>Inl\<close> of the error) and the world it leaves;
  \<^item> every reading of the clock and every draw of randomness
    (\<^verbatim>\<open>new Date()\<close>, \<^verbatim>\<open>Date.now()\<close>, \<^verbatim>\<open>crypto.randomUUID()\<close>,
    \<^verbatim>\<open>generateToken()\<close>) is an explicit argument, one per call site;
  \<^item> IndexedDB calls succeed unless the source's own checks or a primary key collision
    make them fail; a write to localStorage may be refused (\<^verbatim>\<open>setItem\<close> throws when
    the quota is exceeded), and whether it is refused is an explicit argument too.
\<close>

subsection \<open>Entities (\<^verbatim>\<open>src/types/iolta.ts\<close>)\<close>

type_synonym time = int

record User =
  user_id :: string
  user_email :: string
  user_name :: string
  user_passwordHash :: string
  user_createdAt :: time
  user_updatedAt :: time

record Session =
  session_id :: string
  session_userId :: string
  session_token :: string
  session_expiresAt :: time
  session_createdAt :: time

record Organization =
  org_id :: string
  org_name :: string
  org_slug :: string
  org_logo :: "string option"
  org_createdAt :: time

datatype Role = owner | admin | member

record Member =
  member_id :: string
  member_userId :: string
  member_organizationId :: string
  member_role :: Role
  member_createdAt :: time

text \<open>The session reference kept in localStorage under \<^verbatim>\<open>iolta:session\<close>.\<close>

record SessionRef =
  sessionId :: string
  token :: string
  activeOrgId :: "string option"

text \<open>The cookie \<^verbatim>\<open>iolta:local-session\<close>: its value and its expiry.\<close>

record Cookie =
  cookie_value :: string
  cookie_expires :: time

text \<open>
  The user object of a \<^verbatim>\<open>SessionData\<close> as it exists at run time. Its static type is
  \<^verbatim>\<open>Omit<User, 'passwordHash'>\<close>, which an object that still has the property also
  inhabits, so the property is optional here: \<open>None\<close> when the object has no
  \<^verbatim>\<open>passwordHash\<close> property.
\<close>

record SessionUser =
  su_id :: string
  su_email :: string
  su_name :: string
  su_passwordHash :: "string option"
  su_createdAt :: time
  su_updatedAt :: time

record SessionData =
  sd_user :: SessionUser
  sd_session :: Session

record SignUpResult =
  result_user :: User
  result_session :: Session

text \<open>
  A thrown \<^verbatim>\<open>Error\<close> with its message, or the \<^verbatim>\<open>ConstraintError\<close> with which
  Dexie's \<^verbatim>\<open>add\<close> rejects a primary key that is already present.
\<close>

datatype error = Error string | ConstraintError

subsection \<open>The world the operations run in\<close>

text \<open>
  \<open>browser\<close> says that \<^verbatim>\<open>window\<close> (and with it \<^verbatim>\<open>document\<close>) is defined;
  \<open>subtle\<close> is the SHA-256 digest of \<^verbatim>\<open>crypto.subtle\<close>, rendered in hexadecimal, when
  the Web Crypto API is reachable; \<open>toLowerCase\<close> is \<^verbatim>\<open>String.prototype.toLowerCase\<close>.
  The four auth tables are lists of rows in primary key
  order, the order in which the object store iterates; \<open>appTables\<close> stands for the seven
  tables of the application (clients, matters, transactions, holds, audit logs, report
  history, settings), which no auth operation names.
\<close>

record 'app world =
  browser :: bool
  subtle :: "(string \<Rightarrow> string) option"
  toLowerCase :: "string \<Rightarrow> string"
  users :: "User list"
  sessions :: "Session list"
  organizations :: "Organization list"
  members :: "Member list"
  appTables :: 'app
  sessionSlot :: "SessionRef option"
  cookie :: "Cookie option"

definition isBrowser :: "'app world \<Rightarrow> bool" where
  "isBrowser w = browser w"

subsection \<open>Dexie tables\<close>

definition table_get :: "('r \<Rightarrow> string) \<Rightarrow> 'r list \<Rightarrow> string \<Rightarrow> 'r option" where
  "table_get key t k = find (\<lambda>r. key r = k) t"

definition table_add :: "('r \<Rightarrow> string) \<Rightarrow> 'r \<Rightarrow> 'r list \<Rightarrow> error + 'r list" where
  "table_add key r t =
     (case table_get key t (key r) of
        Some _ \<Rightarrow> Inl ConstraintError
      | None \<Rightarrow> Inr (insort_key key r t))"

definition table_delete :: "('r \<Rightarrow> string) \<Rightarrow> string \<Rightarrow> 'r list \<Rightarrow> 'r list" where
  "table_delete key k t = filter (\<lambda>r. key r \<noteq> k) t"

text \<open>\<^verbatim>\<open>where(field).equals(v)\<close>, then \<^verbatim>\<open>toArray()\<close>, \<^verbatim>\<open>first()\<close> or \<^verbatim>\<open>delete()\<close>.\<close>

definition where_equals :: "('r \<Rightarrow> 'v) \<Rightarrow> 'v \<Rightarrow> 'r list \<Rightarrow> 'r list" where
  "where_equals field v t = filter (\<lambda>r. field r = v) t"

definition first :: "'r list \<Rightarrow> 'r option" where
  "first rows = (case rows of [] \<Rightarrow> None | r # _ \<Rightarrow> Some r)"

definition where_equals_delete :: "('r \<Rightarrow> 'v) \<Rightarrow> 'v \<Rightarrow> 'r list \<Rightarrow> 'r list" where
  "where_equals_delete field v t = filter (\<lambda>r. field r \<noteq> v) t"

subsection \<open>Hashing\<close>

definition hashPassword :: "'app world \<Rightarrow> string \<Rightarrow> error + string" where
  "hashPassword w password =
     (case subtle w of
        None \<Rightarrow> Inl (Error ''Web Crypto API is not available. Please ensure you are accessing the app via localhost or HTTPS.'')
      | Some digest \<Rightarrow> Inr (digest password))"

subsection \<open>Session reference and cookie\<close>

definition days_ms :: "int \<Rightarrow> int" where
  "days_ms days = days * 24 * 60 * 60 * 1000"

text \<open>
  The expiry is written with \<^verbatim>\<open>toUTCString\<close>, which has no milliseconds: the cookie
  carries the whole second of \<^verbatim>\<open>now + days\<close>.
\<close>

definition whole_second :: "time \<Rightarrow> time" where
  "whole_second t = t div 1000 * 1000"

definition setAuthCookie :: "string \<Rightarrow> int \<Rightarrow> time \<Rightarrow> 'app world \<Rightarrow> 'app world" where
  "setAuthCookie v days now w =
     (if \<not> browser w then w
      else w\<lparr>cookie := Some \<lparr>cookie_value = v,
                               cookie_expires = whole_second (now + days_ms days)\<rparr>\<rparr>)"

text \<open>An expiry in the past removes the cookie.\<close>

definition clearAuthCookie :: "'app world \<Rightarrow> 'app world" where
  "clearAuthCookie w = (if \<not> browser w then w else w\<lparr>cookie := None\<rparr>)"

definition getSessionRef :: "'app world \<Rightarrow> SessionRef option" where
  "getSessionRef w = (if \<not> browser w then None else sessionSlot w)"

text \<open>
  \<^verbatim>\<open>saveToLocalStorage\<close> catches what \<^verbatim>\<open>localStorage.setItem\<close> throws and returns
  \<^verbatim>\<open>false\<close>; \<^verbatim>\<open>setSessionRef\<close> does not look at the result and sets the cookie in
  either case. \<open>accepted\<close> says whether \<^verbatim>\<open>setItem\<close> took the write.
\<close>

definition setSessionRef :: "SessionRef \<Rightarrow> bool \<Rightarrow> time \<Rightarrow> 'app world \<Rightarrow> 'app world" where
  "setSessionRef ref accepted now w =
     setAuthCookie (token ref) 7 now
       (if \<not> browser w then w
        else if accepted then w\<lparr>sessionSlot := Some ref\<rparr>
        else w)"

definition clearSessionRef :: "'app world \<Rightarrow> 'app world" where
  "clearSessionRef w =
     clearAuthCookie (if \<not> browser w then w else w\<lparr>sessionSlot := None\<rparr>)"

subsection \<open>\<^verbatim>\<open>getSession\<close> and \<^verbatim>\<open>validateSessionSync\<close>\<close>

text \<open>The rest pattern \<^verbatim>\<open>{ passwordHash: _, ...safeUser }\<close>.\<close>

definition safeUser :: "User \<Rightarrow> SessionUser" where
  "safeUser u =
     \<lparr>su_id = user_id u, su_email = user_email u, su_name = user_name u,
      su_passwordHash = None,
      su_createdAt = user_createdAt u, su_updatedAt = user_updatedAt u\<rparr>"

text \<open>
  \<open>now\<close> is the \<^verbatim>\<open>new Date()\<close> of the expiry check, \<open>cookie_now\<close> the one inside
  \<^verbatim>\<open>setAuthCookie\<close>.
\<close>

definition getSession :: "time \<Rightarrow> time \<Rightarrow> 'app world \<Rightarrow> SessionData option \<times> 'app world" where
  "getSession now cookie_now w =
     (if \<not> isBrowser w then (None, w)
      else case getSessionRef w of
        None \<Rightarrow> (None, w)
      | Some sessionRef \<Rightarrow>
          (case table_get session_id (sessions w) (sessionId sessionRef) of
             None \<Rightarrow> (None, clearSessionRef w)
           | Some session \<Rightarrow>
               if session_token session \<noteq> token sessionRef then (None, clearSessionRef w)
               else if session_expiresAt session < now then
                 (None, clearSessionRef
                    (w\<lparr>sessions := table_delete session_id (session_id session) (sessions w)\<rparr>))
               else
                 (case table_get user_id (users w) (session_userId session) of
                    None \<Rightarrow>
                      (None, clearSessionRef
                         (w\<lparr>sessions := table_delete session_id (session_id session) (sessions w)\<rparr>))
                  | Some user \<Rightarrow>
                      (Some \<lparr>sd_user = safeUser user, sd_session = session\<rparr>,
                       setAuthCookie (session_token session) 7 cookie_now w))))"

text \<open>
  The \<^verbatim>\<open>details\<close> record of \<^verbatim>\<open>validateSessionSync\<close>; a property that was never
  assigned is \<open>None\<close>. \<^verbatim>\<open>sessionId\<close> is assigned \<^verbatim>\<open>undefined\<close> when there is no
  reference.
\<close>

record Details =
  d_error :: "string option"
  d_hasLocalStorageRef :: "bool option"
  d_sessionId :: "string option"
  d_hasIndexedDBSession :: "bool option"
  d_tokenMatch :: "bool option"
  d_notExpired :: "bool option"
  d_hasUser :: "bool option"

record Validation =
  valid :: bool
  details :: Details

definition no_details :: Details where
  "no_details =
     \<lparr>d_error = None, d_hasLocalStorageRef = None, d_sessionId = None,
      d_hasIndexedDBSession = None, d_tokenMatch = None, d_notExpired = None,
      d_hasUser = None\<rparr>"

text \<open>
  \<open>now1\<close> is the clock read for \<^verbatim>\<open>details.notExpired\<close>, \<open>now2\<close> the one read for
  \<^verbatim>\<open>valid\<close>.
\<close>

definition validateSessionSync :: "time \<Rightarrow> time \<Rightarrow> 'app world \<Rightarrow> Validation \<times> 'app world" where
  "validateSessionSync now1 now2 w =
     (if \<not> isBrowser w then
        (\<lparr>valid = False, details = no_details\<lparr>d_error := Some ''Not in browser''\<rparr>\<rparr>, w)
      else case getSessionRef w of
        None \<Rightarrow>
          (\<lparr>valid = False, details = no_details\<lparr>d_hasLocalStorageRef := Some False\<rparr>\<rparr>, w)
      | Some sessionRef \<Rightarrow>
          (case table_get session_id (sessions w) (sessionId sessionRef) of
             None \<Rightarrow>
               (\<lparr>valid = False,
                 details = no_details
                   \<lparr>d_hasLocalStorageRef := Some True,
                    d_sessionId := Some (sessionId sessionRef),
                    d_hasIndexedDBSession := Some False,
                    d_tokenMatch := Some False,
                    d_notExpired := Some False\<rparr>\<rparr>, w)
           | Some session \<Rightarrow>
               (\<lparr>valid = (session_token session = token sessionRef
                           \<and> session_expiresAt session > now2),
                 details = no_details
                   \<lparr>d_hasLocalStorageRef := Some True,
                    d_sessionId := Some (sessionId sessionRef),
                    d_hasIndexedDBSession := Some True,
                    d_tokenMatch := Some (session_token session = token sessionRef),
                    d_notExpired := Some (session_expiresAt session > now1),
                    d_hasUser :=
                      Some (table_get user_id (users w) (session_userId session) \<noteq> None)\<rparr>\<rparr>,
                w)))"

subsection \<open>Sign up and sign in\<close>

record SignUpData =
  signup_email :: string
  signup_password :: string
  signup_name :: string

record SignInData =
  signin_email :: string
  signin_password :: string

text \<open>
  What the creation of a user row draws from the platform: \<^verbatim>\<open>crypto.randomUUID()\<close> and
  the two \<^verbatim>\<open>new Date()\<close> of \<^verbatim>\<open>createdAt\<close> and \<^verbatim>\<open>updatedAt\<close>.
\<close>

record UserEnv =
  uuid_user :: string
  now_user_created :: time
  now_user_updated :: time

text \<open>
  What the creation of a session draws: \<^verbatim>\<open>generateToken()\<close>,
  \<^verbatim>\<open>crypto.randomUUID()\<close>, the \<^verbatim>\<open>Date.now()\<close> of \<^verbatim>\<open>expiresAt\<close>, the
  \<^verbatim>\<open>new Date()\<close> of \<^verbatim>\<open>createdAt\<close>, whether localStorage accepts the write of
  the reference, and the \<^verbatim>\<open>new Date()\<close> inside \<^verbatim>\<open>setAuthCookie\<close>.
\<close>

record SessionEnv =
  gen_token :: string
  uuid_session :: string
  date_now :: time
  now_session_created :: time
  ref_write_ok :: bool
  now_cookie :: time

definition signUpEmail ::
  "UserEnv \<Rightarrow> SessionEnv \<Rightarrow> SignUpData \<Rightarrow> 'app world \<Rightarrow> (error + SignUpResult) \<times> 'app world" where
  "signUpEmail ue se data w =
     (if \<not> isBrowser w then (Inl (Error ''Auth operations require browser''), w)
      else case first (where_equals user_email (toLowerCase w (signup_email data)) (users w)) of
        Some existingUser \<Rightarrow> (Inl (Error ''Email already registered''), w)
      | None \<Rightarrow>
          (case hashPassword w (signup_password data) of
             Inl e \<Rightarrow> (Inl e, w)
           | Inr passwordHash \<Rightarrow>
               (let user =
                      \<lparr>user_id = uuid_user ue,
                       user_email = toLowerCase w (signup_email data),
                       user_name = signup_name data,
                       user_passwordHash = passwordHash,
                       user_createdAt = now_user_created ue,
                       user_updatedAt = now_user_updated ue\<rparr>
                in case table_add user_id user (users w) of
                     Inl e \<Rightarrow> (Inl e, w)
                   | Inr users' \<Rightarrow>
                       (let w1 = w\<lparr>users := users'\<rparr>;
                            session =
                              \<lparr>session_id = uuid_session se,
                               session_userId = user_id user,
                               session_token = gen_token se,
                               session_expiresAt = date_now se + 7 * 24 * 60 * 60 * 1000,
                               session_createdAt = now_session_created se\<rparr>
                        in case table_add session_id session (sessions w1) of
                             Inl e \<Rightarrow> (Inl e, w1)
                           | Inr sessions' \<Rightarrow>
                               (Inr \<lparr>result_user = user, result_session = session\<rparr>,
                                setSessionRef
                                  \<lparr>sessionId = session_id session, token = gen_token se,
                                   activeOrgId = None\<rparr>
                                  (ref_write_ok se) (now_cookie se)
                                  (w1\<lparr>sessions := sessions'\<rparr>))))))"

definition signInEmail ::
  "SessionEnv \<Rightarrow> SignInData \<Rightarrow> 'app world \<Rightarrow> (error + SignUpResult) \<times> 'app world" where
  "signInEmail se data w =
     (if \<not> isBrowser w then (Inl (Error ''Auth operations require browser''), w)
      else case first (where_equals user_email (toLowerCase w (signin_email data)) (users w)) of
        None \<Rightarrow> (Inl (Error ''Invalid email or password''), w)
      | Some user \<Rightarrow>
          (case hashPassword w (signin_password data) of
             Inl e \<Rightarrow> (Inl e, w)
           | Inr passwordHash \<Rightarrow>
               if passwordHash \<noteq> user_passwordHash user
               then (Inl (Error ''Invalid email or password''), w)
               else
                 (let session =
                        \<lparr>session_id = uuid_session se,
                         session_userId = user_id user,
                         session_token = gen_token se,
                         session_expiresAt = date_now se + 7 * 24 * 60 * 60 * 1000,
                         session_createdAt = now_session_created se\<rparr>
                  in case table_add session_id session (sessions w) of
                       Inl e \<Rightarrow> (Inl e, w)
                     | Inr sessions' \<Rightarrow>
                         (Inr \<lparr>result_user = user, result_session = session\<rparr>,
                          setSessionRef
                            \<lparr>sessionId = session_id session, token = gen_token se,
                             activeOrgId = None\<rparr>
                            (ref_write_ok se) (now_cookie se)
                            (w\<lparr>sessions := sessions'\<rparr>)))))"

subsection \<open>Organizations\<close>

record CreateOrgData =
  co_name :: string
  co_slug :: string
  co_logo :: "string option"

record CreateOrgEnv =
  uuid_org :: string
  now_org_created :: time
  uuid_member :: string
  now_member_created :: time
  org_ref_write_ok :: bool
  now_org_cookie :: time

definition createOrganization ::
  "CreateOrgEnv \<Rightarrow> CreateOrgData \<Rightarrow> string \<Rightarrow> 'app world \<Rightarrow> (error + Organization) \<times> 'app world" where
  "createOrganization env data userId w =
     (if \<not> isBrowser w then (Inl (Error ''Auth operations require browser''), w)
      else case first (where_equals org_slug (co_slug data) (organizations w)) of
        Some existing \<Rightarrow> (Inl (Error ''Organization slug already taken''), w)
      | None \<Rightarrow>
          (let org =
                 \<lparr>org_id = uuid_org env, org_name = co_name data, org_slug = co_slug data,
                  org_logo = co_logo data, org_createdAt = now_org_created env\<rparr>
           in case table_add org_id org (organizations w) of
                Inl e \<Rightarrow> (Inl e, w)
              | Inr organizations' \<Rightarrow>
                  (let w1 = w\<lparr>organizations := organizations'\<rparr>;
                       mem =
                         \<lparr>member_id = uuid_member env, member_userId = userId,
                          member_organizationId = org_id org, member_role = owner,
                          member_createdAt = now_member_created env\<rparr>
                   in case table_add member_id mem (members w1) of
                        Inl e \<Rightarrow> (Inl e, w1)
                      | Inr members' \<Rightarrow>
                          (let w2 = w1\<lparr>members := members'\<rparr>
                           in (Inr org,
                               case getSessionRef w2 of
                                 None \<Rightarrow> w2
                               | Some sessionRef \<Rightarrow>
                                   setSessionRef (sessionRef\<lparr>activeOrgId := Some (org_id org)\<rparr>)
                                     (org_ref_write_ok env) (now_org_cookie env) w2)))))"

definition getOrganizations :: "string \<Rightarrow> 'app world \<Rightarrow> Organization list \<times> 'app world" where
  "getOrganizations userId w =
     (if \<not> isBrowser w then ([], w)
      else
        (let memberships = where_equals member_userId userId (members w);
             orgIds = map member_organizationId memberships
         in (List.map_filter (\<lambda>i. table_get org_id (organizations w) i) orgIds, w)))"

text \<open>\<^verbatim>\<open>!sessionRef?.activeOrgId\<close> holds of a missing reference, a missing property and the
  empty string.\<close>

definition getActiveOrganization :: "'app world \<Rightarrow> Organization option \<times> 'app world" where
  "getActiveOrganization w =
     (if \<not> isBrowser w then (None, w)
      else case getSessionRef w of
        None \<Rightarrow> (None, w)
      | Some sessionRef \<Rightarrow>
          (case activeOrgId sessionRef of
             None \<Rightarrow> (None, w)
           | Some orgId \<Rightarrow>
               if orgId = [] then (None, w)
               else (table_get org_id (organizations w) orgId, w)))"

subsection \<open>Debug and admin utilities\<close>

definition listAllUsers :: "'app world \<Rightarrow> SessionUser list \<times> 'app world" where
  "listAllUsers w = (if \<not> isBrowser w then ([], w) else (map safeUser (users w), w))"

definition deleteUserByEmail :: "string \<Rightarrow> 'app world \<Rightarrow> 'app world" where
  "deleteUserByEmail e w =
     (if \<not> isBrowser w then w
      else case first (where_equals user_email (toLowerCase w e) (users w)) of
        None \<Rightarrow> w
      | Some user \<Rightarrow>
          w\<lparr>sessions := where_equals_delete session_userId (user_id user) (sessions w),
            members := where_equals_delete member_userId (user_id user) (members w),
            users := table_delete user_id (user_id user) (users w)\<rparr>)"

subsection \<open>The auth context (\<^verbatim>\<open>auth-context.tsx\<close>)\<close>

record AuthState =
  ctx_session :: "SessionData option"
  isLoading :: bool
  ctx_error :: "string option"
  activeOrganization :: "Organization option"
  ctx_organizations :: "Organization list"





section \<open>The localStorage helpers\<close>

text \<open>
  The values the helpers handle: JSON values, and \<^verbatim>\<open>Date\<close> objects inside them. The
  payload of a number is never inspected, hence a type parameter. The object of
  \<open>JObj\<close> lists its own enumerable entries in the order of \<^verbatim>\<open>Object.entries\<close>; an
  object has no two entries of the same key.
\<close>

datatype 'n jsval =
    JNull
  | JBool bool
  | JNum 'n
  | JStr string
  | JDate time
  | JArr "'n jsval list"
  | JObj "(string \<times> 'n jsval) list"

text \<open>
  \<^verbatim>\<open>Date.prototype.toISOString\<close> and the parser of \<^verbatim>\<open>new Date(string)\<close> belong to the
  platform; both functions below take them as arguments (\<open>toISOString\<close>, and \<open>parseDate\<close>,
  which is \<open>None\<close> where \<^verbatim>\<open>isNaN(parsed.getTime())\<close>).
\<close>

text \<open>
  Both functions build their result with \<^verbatim>\<open>result[key] = ...\<close> on a fresh \<^verbatim>\<open>{}\<close>.
  For the key \<^verbatim>\<open>__proto__\<close> that assignment reaches the setter of
  \<^verbatim>\<open>Object.prototype\<close> and creates no own property: the entry is not in the result.
\<close>

definition assignable :: "string \<Rightarrow> bool" where
  "assignable key = (key \<noteq> ''__proto__'')"

fun serializeDates :: "(time \<Rightarrow> string) \<Rightarrow> 'n jsval \<Rightarrow> 'n jsval" where
  "serializeDates toISOString JNull = JNull"
| "serializeDates toISOString (JDate t) = JStr (toISOString t)"
| "serializeDates toISOString (JArr xs) = JArr (map (serializeDates toISOString) xs)"
| "serializeDates toISOString (JObj kvs) =
     JObj (map (\<lambda>(key, v). (key, serializeDates toISOString v))
             (filter (\<lambda>(key, v). assignable key) kvs))"
| "serializeDates toISOString obj = obj"

definition defaultDateFields :: "string list" where
  "defaultDateFields =
     [''createdAt'', ''updatedAt'', ''timestamp'', ''expiresAt'', ''openDate'', ''closeDate'',
      ''releasedAt'', ''generatedAt'']"

definition allDateFields :: "string list \<Rightarrow> string list" where
  "allDateFields dateFields = remdups (defaultDateFields @ dateFields)"

text \<open>\<^verbatim>\<open>typeof value === 'object'\<close>\<close>

fun typeof_object :: "'n jsval \<Rightarrow> bool" where
  "typeof_object JNull = True"
| "typeof_object (JDate t) = True"
| "typeof_object (JArr xs) = True"
| "typeof_object (JObj kvs) = True"
| "typeof_object v = False"

text \<open>A \<^verbatim>\<open>Date\<close> has no own enumerable property: the object branch rebuilds it as
  \<^verbatim>\<open>{}\<close>.\<close>

fun deserializeDates :: "(string \<Rightarrow> time option) \<Rightarrow> 'n jsval \<Rightarrow> string list \<Rightarrow> 'n jsval" where
  "deserializeDates parseDate JNull dateFields = JNull"
| "deserializeDates parseDate (JArr xs) dateFields =
     JArr (map (\<lambda>item. deserializeDates parseDate item dateFields) xs)"
| "deserializeDates parseDate (JObj kvs) dateFields =
     JObj (map (\<lambda>(key, v).
             (case v of
                JStr str \<Rightarrow>
                  if key \<in> set (allDateFields dateFields)
                  then (key, case parseDate str of None \<Rightarrow> v | Some parsed \<Rightarrow> JDate parsed)
                  else (key, v)
              | _ \<Rightarrow>
                  if typeof_object v then (key, deserializeDates parseDate v dateFields)
                  else (key, v))) (filter (\<lambda>(key, v). assignable key) kvs))"
| "deserializeDates parseDate (JDate t) dateFields = JObj []"
| "deserializeDates parseDate obj dateFields = obj"

text \<open>
  What localStorage holds under a key: a JSON text, stood for by the value it denotes
  (\<^verbatim>\<open>JSON.parse\<close> of \<^verbatim>\<open>JSON.stringify\<close> of a value without dates is that value), the
  empty string, or a text that \<^verbatim>\<open>JSON.parse\<close> rejects. \<open>setItem_ok\<close> says whether
  \<^verbatim>\<open>localStorage.setItem\<close> accepts a write or throws (the quota).
\<close>

datatype 'n item = Json "'n jsval" | EmptyText | Unparseable

record 'n page =
  window_defined :: bool
  localStorage :: "string \<Rightarrow> 'n item option"
  setItem_ok :: "string \<Rightarrow> 'n jsval \<Rightarrow> bool"

text \<open>A \<^verbatim>\<open>null\<close> result is \<open>JNull\<close>.\<close>

definition loadFromLocalStorage ::
  "(string \<Rightarrow> time option) \<Rightarrow> string \<Rightarrow> string list \<Rightarrow> ('n jsval \<Rightarrow> bool) option
     \<Rightarrow> 'n page \<Rightarrow> 'n jsval" where
  "loadFromLocalStorage parseDate key dateFields validator p =
     (if \<not> window_defined p then JNull
      else case localStorage p key of
        None \<Rightarrow> JNull
      | Some EmptyText \<Rightarrow> JNull
      | Some Unparseable \<Rightarrow> JNull
      | Some (Json parsed) \<Rightarrow>
          (let deserialized = deserializeDates parseDate parsed dateFields
           in case validator of
                None \<Rightarrow> deserialized
              | Some accepts \<Rightarrow> if \<not> accepts deserialized then JNull else deserialized))"

definition saveToLocalStorage ::
  "(time \<Rightarrow> string) \<Rightarrow> string \<Rightarrow> 'n jsval \<Rightarrow> 'n page \<Rightarrow> bool \<times> 'n page" where
  "saveToLocalStorage toISOString key data p =
     (if \<not> window_defined p then (False, p)
      else
        (let serialized = serializeDates toISOString data
         in if setItem_ok p key serialized
            then (True, p\<lparr>localStorage := (localStorage p)(key \<mapsto> Json serialized)\<rparr>)
            else (False, p)))"

definition removeFromLocalStorage :: "string \<Rightarrow> 'n page \<Rightarrow> bool \<times> 'n page" where
  "removeFromLocalStorage key p =
     (if \<not> window_defined p then (False, p)
      else (True, p\<lparr>localStorage := (localStorage p)(key := None)\<rparr>))"

text \<open>\<^verbatim>\<open>STORAGE_KEYS.SESSION\<close>, and a session reference as the object it is.\<close>

definition SESSION :: string where
  "SESSION = ''iolta:session''"

definition sessionRef_object :: "SessionRef \<Rightarrow> 'n jsval" where
  "sessionRef_object ref =
     JObj ([(''sessionId'', JStr (sessionId ref)), (''token'', JStr (token ref))]
           @ (case activeOrgId ref of None \<Rightarrow> [] | Some orgId \<Rightarrow> [(''activeOrgId'', JStr orgId)]))"

text \<open>
  The values of the round trip: every field named in the date-field set \<open>ds\<close> holds a
  date, and a date occurs nowhere else (not as an array element, not as the value itself).
\<close>

fun dates_in_date_fields :: "string list \<Rightarrow> 'n jsval \<Rightarrow> bool" where
  "dates_in_date_fields ds (JDate t) = False"
| "dates_in_date_fields ds (JArr xs) = list_all (dates_in_date_fields ds) xs"
| "dates_in_date_fields ds (JObj kvs) =
     list_all (\<lambda>(key, v).
        (case v of
           JDate t \<Rightarrow> key \<in> set ds
         | _ \<Rightarrow> key \<notin> set ds \<and> dates_in_date_fields ds v)) kvs"
| "dates_in_date_fields ds v = True"

text \<open>No object inside the value has an own property \<^verbatim>\<open>__proto__\<close>.\<close>

fun assignable_keys :: "'n jsval \<Rightarrow> bool" where
  "assignable_keys (JArr xs) = list_all assignable_keys xs"
| "assignable_keys (JObj kvs) = list_all (\<lambda>(key, v). assignable key \<and> assignable_keys v) kvs"
| "assignable_keys v = True"

text \<open>The dates inside a value.\<close>

fun dates_of :: "'n jsval \<Rightarrow> time list" where
  "dates_of (JDate t) = [t]"
| "dates_of (JArr xs) = concat (map dates_of xs)"
| "dates_of (JObj kvs) = concat (map (\<lambda>(key, v). dates_of v) kvs)"
| "dates_of v = []"

section \<open>Notions used in the statements\<close>

text \<open>The referenced session row exists and its \<^verbatim>\<open>expiresAt\<close> is the instant \<open>now\<close>.\<close>

definition expires_exactly_at :: "time \<Rightarrow> 'app world \<Rightarrow> bool" where
  "expires_exactly_at now w =
     (case getSessionRef w of
        None \<Rightarrow> False
      | Some ref \<Rightarrow>
          (case table_get session_id (sessions w) (sessionId ref) of
             None \<Rightarrow> False
           | Some s \<Rightarrow> session_expiresAt s = now))"

text \<open>The rows and the reference that a sign-up or sign-in writes, named for the statements.\<close>

definition new_user :: "'app world \<Rightarrow> UserEnv \<Rightarrow> string \<Rightarrow> SignUpData \<Rightarrow> User" where
  "new_user w ue passwordHash data =
     \<lparr>user_id = uuid_user ue, user_email = toLowerCase w (signup_email data),
      user_name = signup_name data, user_passwordHash = passwordHash,
      user_createdAt = now_user_created ue, user_updatedAt = now_user_updated ue\<rparr>"

definition new_session :: "SessionEnv \<Rightarrow> string \<Rightarrow> Session" where
  "new_session se userId =
     \<lparr>session_id = uuid_session se, session_userId = userId, session_token = gen_token se,
      session_expiresAt = date_now se + days_ms 7, session_createdAt = now_session_created se\<rparr>"

definition new_ref :: "SessionEnv \<Rightarrow> SessionRef" where
  "new_ref se = \<lparr>sessionId = uuid_session se, token = gen_token se, activeOrgId = None\<rparr>"

section \<open>Example states\<close>

text \<open>
  A signed-in browser tab: one user, her session (created at instant 1000, so expiring at
  604801000), the reference and the cookie. \<open>demo_digest\<close> stands in for SHA-256 in the
  examples.
\<close>

definition demo_digest :: "string \<Rightarrow> string" where
  "demo_digest password = rev password"

text \<open>On the ASCII texts of the examples \<^verbatim>\<open>toLowerCase\<close> is this fold of A to Z.\<close>

definition ascii_toLowerCase_char :: "char \<Rightarrow> char" where
  "ascii_toLowerCase_char c =
     (if CHR ''A'' \<le> c \<and> c \<le> CHR ''Z'' then char_of (of_char c + (32::nat)) else c)"

definition ascii_toLowerCase :: "string \<Rightarrow> string" where
  "ascii_toLowerCase s = map ascii_toLowerCase_char s"

definition jane :: User where
  "jane =
     \<lparr>user_id = ''u-1'', user_email = ''jane@example.com'', user_name = ''Jane Doe'',
      user_passwordHash = ''22retnuh'', user_createdAt = 1000, user_updatedAt = 1000\<rparr>"

definition jane_session :: Session where
  "jane_session =
     \<lparr>session_id = ''s-1'', session_userId = ''u-1'', session_token = ''tok-1'',
      session_expiresAt = 604801000, session_createdAt = 1000\<rparr>"

definition jane_ref :: SessionRef where
  "jane_ref = \<lparr>sessionId = ''s-1'', token = ''tok-1'', activeOrgId = None\<rparr>"

definition signed_in :: "unit world" where
  "signed_in =
     \<lparr>browser = True, subtle = Some demo_digest, toLowerCase = ascii_toLowerCase,
      users = [jane], sessions = [jane_session],
      organizations = [], members = [], appTables = (),
      sessionSlot = Some jane_ref,
      cookie = Some \<lparr>cookie_value = ''tok-1'', cookie_expires = 604801000\<rparr>\<rparr>"

text \<open>The same tab before anybody signed up, and the same data seen where there is no
  \<^verbatim>\<open>window\<close>.\<close>

definition anonymous :: "unit world" where
  "anonymous =
     \<lparr>browser = True, subtle = Some demo_digest, toLowerCase = ascii_toLowerCase,
      users = [], sessions = [],
      organizations = [], members = [], appTables = (),
      sessionSlot = None, cookie = None\<rparr>"

definition server_side :: "unit world" where
  "server_side = signed_in\<lparr>browser := False\<rparr>"

text \<open>The sign-up that leads from \<open>anonymous\<close> to \<open>signed_in\<close>.\<close>

definition jane_signup :: SignUpData where
  "jane_signup =
     \<lparr>signup_email = ''Jane@Example.com'', signup_password = ''hunter22'',
      signup_name = ''Jane Doe''\<rparr>"

definition jane_user_env :: UserEnv where
  "jane_user_env = \<lparr>uuid_user = ''u-1'', now_user_created = 1000, now_user_updated = 1000\<rparr>"

definition jane_session_env :: SessionEnv where
  "jane_session_env =
     \<lparr>gen_token = ''tok-1'', uuid_session = ''s-1'', date_now = 1000,
      now_session_created = 1000, ref_write_ok = True, now_cookie = 1000\<rparr>"

text \<open>An office of two: a second user with his session, one organization, two memberships.\<close>

definition bob :: User where
  "bob =
     \<lparr>user_id = ''u-2'', user_email = ''bob@example.com'', user_name = ''Bob Roe'',
      user_passwordHash = ''terces'', user_createdAt = 2000, user_updatedAt = 2000\<rparr>"

definition bob_session :: Session where
  "bob_session =
     \<lparr>session_id = ''s-2'', session_userId = ''u-2'', session_token = ''tok-2'',
      session_expiresAt = 604802000, session_createdAt = 2000\<rparr>"

definition firm :: Organization where
  "firm =
     \<lparr>org_id = ''o-1'', org_name = ''Doe and Roe'', org_slug = ''doe-roe'', org_logo = None,
      org_createdAt = 3000\<rparr>"

definition jane_member :: Member where
  "jane_member =
     \<lparr>member_id = ''m-1'', member_userId = ''u-1'', member_organizationId = ''o-1'',
      member_role = owner, member_createdAt = 3000\<rparr>"

definition bob_member :: Member where
  "bob_member =
     \<lparr>member_id = ''m-2'', member_userId = ''u-2'', member_organizationId = ''o-1'',
      member_role = member, member_createdAt = 4000\<rparr>"

definition office :: "unit world" where
  "office =
     signed_in\<lparr>users := [jane, bob], sessions := [jane_session, bob_session],
               organizations := [firm], members := [jane_member, bob_member]\<rparr>"

text \<open>The tab of the second user, his reference and cookie in place.\<close>

definition bob_ref :: SessionRef where
  "bob_ref = \<lparr>sessionId = ''s-2'', token = ''tok-2'', activeOrgId = Some ''o-1''\<rparr>"

definition bob_tab :: "unit world" where
  "bob_tab =
     office\<lparr>sessionSlot := Some bob_ref,
            cookie := Some \<lparr>cookie_value = ''tok-2'', cookie_expires = 604802000\<rparr>\<rparr>"

definition second_session_env :: SessionEnv where
  "second_session_env =
     \<lparr>gen_token = ''tok-3'', uuid_session = ''s-3'', date_now = 5000,
      now_session_created = 5000, ref_write_ok = True, now_cookie = 5000\<rparr>"

definition jane_signin :: SignInData where
  "jane_signin = \<lparr>signin_email = ''Jane@Example.com'', signin_password = ''hunter22''\<rparr>"

definition fresh_context :: AuthState where
  "fresh_context =
     \<lparr>ctx_session = None, isLoading = False, ctx_error = None, activeOrganization = None,
      ctx_organizations = []\<rparr>"

text \<open>
  A page with an empty localStorage that accepts every write, a value with two dates in
  date fields, and the two ISO texts the example needs.
\<close>

definition demo_toISOString :: "time \<Rightarrow> string" where
  "demo_toISOString t = (if t = 604801000 then ''1970-01-08T00:00:01.000Z'' else ''1970-01-01T00:00:00.000Z'')"

definition demo_parseDate :: "string \<Rightarrow> time option" where
  "demo_parseDate str =
     (if str = ''1970-01-08T00:00:01.000Z'' then Some 604801000
      else if str = ''1970-01-01T00:00:00.000Z'' then Some 0 else None)"

definition demo_value :: "nat jsval" where
  "demo_value =
     JObj [(''id'', JStr ''s-1''), (''expiresAt'', JDate 604801000),
           (''lastSeen'', JDate 0), (''attempts'', JNum 3), (''note'', JNull),
           (''history'', JArr [JObj [(''timestamp'', JDate 0), (''ok'', JBool True)]])]"

text \<open>An object with an own property \<^verbatim>\<open>__proto__\<close>, as
  \<^verbatim>\<open>JSON.parse('{"__proto__": 1, "b": 2}')\<close> returns it.\<close>

definition proto_value :: "nat jsval" where
  "proto_value = JObj [(''__proto__'', JNum 1), (''b'', JNum 2)]"

definition demo_page :: "nat page" where
  "demo_page = \<lparr>window_defined = True, localStorage = Map.empty, setItem_ok = (\<lambda>key v. True)\<rparr>"

lemmas office_defs =
  office_def bob_def bob_session_def firm_def jane_member_def bob_member_def
  bob_ref_def bob_tab_def second_session_env_def jane_signin_def fresh_context_def

lemmas signup_example_defs = jane_signup_def jane_user_env_def jane_session_env_def

lemmas example_defs =
  signed_in_def anonymous_def server_side_def jane_def jane_session_def jane_ref_def

section \<open>Tables\<close>

lemma table_get_SomeD: "table_get key t k = Some r \<Longrightarrow> key r = k \<and> r \<in> set t"
  unfolding table_get_def by (induction t) (auto split: if_splits)

lemma table_get_None_iff: "table_get key t k = None \<longleftrightarrow> (\<forall>r\<in>set t. key r \<noteq> k)"
  unfolding table_get_def by (induction t) auto

lemma find_insort_key_new:
  "find (\<lambda>r. key r = key x) t = None \<Longrightarrow> find (\<lambda>r. key r = key x) (insort_key key x t) = Some x"
  by (induction t) (auto split: if_splits)

lemma find_insort_key_other:
  "k \<noteq> key x \<Longrightarrow> find (\<lambda>r. key r = k) (insort_key key x t) = find (\<lambda>r. key r = k) t"
  by (induction t) auto

lemma table_get_add_new:
  "table_add key x t = Inr t' \<Longrightarrow> table_get key t' (key x) = Some x"
  unfolding table_add_def table_get_def
  by (auto split: option.splits simp: find_insort_key_new)

lemma table_get_add_other:
  "table_add key x t = Inr t' \<Longrightarrow> k \<noteq> key x \<Longrightarrow> table_get key t' k = table_get key t k"
  unfolding table_add_def table_get_def
  by (auto split: option.splits simp: find_insort_key_other)

lemma table_add_fresh:
  "\<forall>r\<in>set t. key r \<noteq> key x \<Longrightarrow> table_add key x t = Inr (insort_key key x t)"
  unfolding table_add_def by (simp add: table_get_None_iff[THEN iffD2])

lemma first_where_equals_None_iff:
  "first (where_equals field v t) = None \<longleftrightarrow> (\<forall>r\<in>set t. field r \<noteq> v)"
  unfolding first_def where_equals_def
  by (auto split: list.splits simp: filter_empty_conv filter_eq_Cons_iff)

lemma first_where_equals_SomeD:
  "first (where_equals field v t) = Some r \<Longrightarrow> r \<in> set t \<and> field r = v"
  unfolding first_def where_equals_def
  by (auto split: list.splits simp: filter_eq_Cons_iff)

lemma filter_insort_key_single:
  "filter P t = [] \<Longrightarrow> P x \<Longrightarrow> filter P (insort_key key x t) = [x]"
  by (induction t) (auto split: if_splits)

section \<open>The self-healing read\<close>

lemma clearSessionRef_fields:
  "browser w \<Longrightarrow> clearSessionRef w = w\<lparr>sessionSlot := None, cookie := None\<rparr>"
  by (simp add: clearSessionRef_def clearAuthCookie_def)

lemma getSession_no_ref:
  "getSessionRef w = None \<Longrightarrow> getSession now cnow w = (None, w)"
  by (simp add: getSession_def)

text \<open>
  What \<^verbatim>\<open>getSession\<close> does when one of its own checks fails: with no session row
  under the referenced id, a token that differs from the reference's, an expiry before the
  clock reading of the check (the source's \<^verbatim>\<open>expiresAt < now\<close>), or no user row for the
  session, it returns \<^verbatim>\<open>null\<close> and leaves neither reference nor cookie; a second call,
  at whatever time, returns \<^verbatim>\<open>null\<close> again and changes nothing more.
\<close>

lemma getSession_clears_on_failure:
  assumes ref: "getSessionRef w = Some ref"
    and bad: "table_get session_id (sessions w) (sessionId ref) = None
       \<or> (\<exists>s. table_get session_id (sessions w) (sessionId ref) = Some s
              \<and> (session_token s \<noteq> token ref
                  \<or> session_expiresAt s < now
                  \<or> table_get user_id (users w) (session_userId s) = None))"
  shows "fst (getSession now cnow w) = None
       \<and> sessionSlot (snd (getSession now cnow w)) = None
       \<and> cookie (snd (getSession now cnow w)) = None
       \<and> getSessionRef (snd (getSession now cnow w)) = None
       \<and> (\<forall>now' cnow'. getSession now' cnow' (snd (getSession now cnow w))
             = (None, snd (getSession now cnow w)))"
proof -
  from ref have br: "browser w" and slot: "sessionSlot w = Some ref"
    by (auto simp: getSessionRef_def split: if_splits)
  define w' where "w' = snd (getSession now cnow w)"
  have res: "fst (getSession now cnow w) = None"
    using ref bad br by (auto simp: getSession_def isBrowser_def split: option.splits)
  have cleared: "sessionSlot w' = None \<and> cookie w' = None"
    unfolding w'_def using ref bad br
    by (auto simp: getSession_def isBrowser_def clearSessionRef_fields split: option.splits)
  then have noref: "getSessionRef w' = None"
    by (simp add: getSessionRef_def)
  then have again: "\<forall>now' cnow'. getSession now' cnow' w' = (None, w')"
    by (simp add: getSession_no_ref)
  show ?thesis
    using res cleared noref again unfolding w'_def by simp
qed

lemma getSession_clears_corrupted_reference:
  "fst (getSession 2000 2000 (signed_in\<lparr>sessionSlot := Some (jane_ref\<lparr>token := ''corrupted''\<rparr>)\<rparr>))
       = None
   \<and> sessionSlot (snd (getSession 2000 2000
        (signed_in\<lparr>sessionSlot := Some (jane_ref\<lparr>token := ''corrupted''\<rparr>)\<rparr>))) = None
   \<and> cookie (snd (getSession 2000 2000
        (signed_in\<lparr>sessionSlot := Some (jane_ref\<lparr>token := ''corrupted''\<rparr>)\<rparr>))) = None"
  using getSession_clears_on_failure
    [of "signed_in\<lparr>sessionSlot := Some (jane_ref\<lparr>token := ''corrupted''\<rparr>)\<rparr>"
        "jane_ref\<lparr>token := ''corrupted''\<rparr>" 2000 2000]
  by (simp add: getSessionRef_def table_get_def example_defs)

text \<open>
  Claim C3 asks that every failing validity check, an expired session among them, make
  \<^verbatim>\<open>getSession\<close> return \<^verbatim>\<open>null\<close> and clear the reference and the cookie. A session
  is valid only while \<^verbatim>\<open>expiresAt\<close> is in the future, so at the instant
  \<^verbatim>\<open>expiresAt = now\<close> the check has failed. In the state \<open>bob_tab\<close> the referenced
  session expires at 604802000. Called with the clock at that instant, \<^verbatim>\<open>getSession\<close>
  returns the user and the session, deletes no row, keeps the reference and renews the
  cookie. This is the strict comparison of claim C1 again; for the other failing checks
  \<open>getSession_clears_on_failure\<close> holds.
\<close>

theorem getSession_keeps_reference_at_expiry_instant:
  "fst (getSession 604802000 604802000 bob_tab)
     = Some \<lparr>sd_user = safeUser bob, sd_session = bob_session\<rparr>
   \<and> sessions (snd (getSession 604802000 604802000 bob_tab)) = [jane_session, bob_session]
   \<and> sessionSlot (snd (getSession 604802000 604802000 bob_tab)) = Some bob_ref
   \<and> cookie (snd (getSession 604802000 604802000 bob_tab))
       = Some \<lparr>cookie_value = ''tok-2'', cookie_expires = 1209602000\<rparr>"
  by (simp add: getSession_def isBrowser_def getSessionRef_def table_get_def setAuthCookie_def
       days_ms_def whole_second_def example_defs office_defs)

section \<open>The expiry boundary\<close>

lemma getSession_Some_iff:
  "fst (getSession now cnow w) \<noteq> None \<longleftrightarrow>
     (\<exists>ref s. getSessionRef w = Some ref
        \<and> table_get session_id (sessions w) (sessionId ref) = Some s
        \<and> session_token s = token ref
        \<and> now \<le> session_expiresAt s
        \<and> table_get user_id (users w) (session_userId s) \<noteq> None)"
  by (auto simp: getSession_def isBrowser_def getSessionRef_def split: option.splits)

text \<open>
  Claim C1 asks that a session whose \<^verbatim>\<open>expiresAt\<close> equals the current time be treated as
  expired. In the state \<open>signed_in\<close> the session expires at 604801000. Called with the clock
  at exactly that instant, \<^verbatim>\<open>getSession\<close> returns the user and the session, keeps the
  session row and the reference and renews the cookie: the test is
  \<^verbatim>\<open>expiresAt < now\<close>, whereas \<^verbatim>\<open>validateSessionSync\<close> tests
  \<^verbatim>\<open>expiresAt > now\<close> for "not expired". One millisecond later the session is removed.
\<close>

theorem getSession_at_expiry_instant:
  "getSession 604801000 604801000 signed_in =
     (Some \<lparr>sd_user = safeUser jane, sd_session = jane_session\<rparr>,
      signed_in\<lparr>cookie := Some \<lparr>cookie_value = ''tok-1'', cookie_expires = 1209601000\<rparr>\<rparr>)
   \<and> valid (fst (validateSessionSync 604801000 604801000 signed_in)) = False
   \<and> getSession 604801001 604801001 signed_in =
       (None, signed_in\<lparr>sessions := [], sessionSlot := None, cookie := None\<rparr>)"
  by (simp add: getSession_def validateSessionSync_def isBrowser_def getSessionRef_def
       table_get_def table_delete_def setAuthCookie_def days_ms_def whole_second_def
       clearSessionRef_def clearAuthCookie_def example_defs)

section \<open>The diagnostic \<^verbatim>\<open>validateSessionSync\<close>\<close>

lemma validateSessionSync_valid_iff:
  "valid (fst (validateSessionSync now1 now w)) \<longleftrightarrow>
     (\<exists>ref s. getSessionRef w = Some ref
        \<and> table_get session_id (sessions w) (sessionId ref) = Some s
        \<and> session_token s = token ref
        \<and> now < session_expiresAt s)"
  by (auto simp: validateSessionSync_def isBrowser_def getSessionRef_def split: option.splits)

lemma validateSessionSync_hasUser_iff:
  "d_hasUser (details (fst (validateSessionSync now1 now w))) = Some True \<longleftrightarrow>
     (\<exists>ref s. getSessionRef w = Some ref
        \<and> table_get session_id (sessions w) (sessionId ref) = Some s
        \<and> table_get user_id (users w) (session_userId s) \<noteq> None)"
  by (auto simp: validateSessionSync_def isBrowser_def getSessionRef_def no_details_def
      split: option.splits)

lemma validateSessionSync_pure: "snd (validateSessionSync now1 now w) = w"
  by (simp add: validateSessionSync_def split: option.splits)

text \<open>
  Claim C2, as stated, fails: with the user row of the session gone, \<^verbatim>\<open>valid\<close> is
  \<^verbatim>\<open>true\<close> although \<^verbatim>\<open>getSession\<close> returns \<^verbatim>\<open>null\<close>. The user lookup only feeds
  \<^verbatim>\<open>details.hasUser\<close>.
\<close>

theorem validateSessionSync_ignores_missing_user:
  "\<not> (valid (fst (validateSessionSync 2000 2000 (signed_in\<lparr>users := []\<rparr>)))
        \<longleftrightarrow> fst (getSession 2000 2000 (signed_in\<lparr>users := []\<rparr>)) \<noteq> None)"
  by (simp add: getSession_def validateSessionSync_def isBrowser_def getSessionRef_def
       table_get_def example_defs)

text \<open>
  Claim C2, amended. \<^verbatim>\<open>validateSessionSync\<close> changes nothing. Its \<^verbatim>\<open>valid\<close> is
  \<^verbatim>\<open>true\<close> exactly when the reference exists, the referenced session row exists, the
  tokens are equal and \<^verbatim>\<open>expiresAt\<close> is strictly later than the clock reading; the
  presence of the user is reported in \<^verbatim>\<open>details.hasUser\<close>. Unless the session expires
  at exactly that reading, \<^verbatim>\<open>getSession\<close> on the same state and at the same reading
  returns a session exactly when \<^verbatim>\<open>valid\<close> and \<^verbatim>\<open>details.hasUser\<close> are both
  \<^verbatim>\<open>true\<close>.
\<close>

theorem validateSessionSync_verdict:
  "snd (validateSessionSync now1 now w) = w
   \<and> (valid (fst (validateSessionSync now1 now w)) \<longleftrightarrow>
        (\<exists>ref s. getSessionRef w = Some ref
           \<and> table_get session_id (sessions w) (sessionId ref) = Some s
           \<and> session_token s = token ref
           \<and> now < session_expiresAt s))
   \<and> (\<not> expires_exactly_at now w \<longrightarrow>
        (fst (getSession now cnow w) \<noteq> None \<longleftrightarrow>
           valid (fst (validateSessionSync now1 now w))
           \<and> d_hasUser (details (fst (validateSessionSync now1 now w))) = Some True))"
proof (intro conjI impI)
  show "snd (validateSessionSync now1 now w) = w"
    by (rule validateSessionSync_pure)
  show "valid (fst (validateSessionSync now1 now w)) \<longleftrightarrow>
        (\<exists>ref s. getSessionRef w = Some ref
           \<and> table_get session_id (sessions w) (sessionId ref) = Some s
           \<and> session_token s = token ref
           \<and> now < session_expiresAt s)"
    by (rule validateSessionSync_valid_iff)
  assume nb: "\<not> expires_exactly_at now w"
  show "fst (getSession now cnow w) \<noteq> None \<longleftrightarrow>
           valid (fst (validateSessionSync now1 now w))
           \<and> d_hasUser (details (fst (validateSessionSync now1 now w))) = Some True"
    unfolding getSession_Some_iff validateSessionSync_valid_iff validateSessionSync_hasUser_iff
    using nb by (auto simp: expires_exactly_at_def)
qed

theorem validateSessionSync_verdict_witness:
  "\<not> expires_exactly_at 2000 signed_in
   \<and> snd (validateSessionSync 2000 2000 signed_in) = signed_in
   \<and> valid (fst (validateSessionSync 2000 2000 signed_in))
   \<and> d_hasUser (details (fst (validateSessionSync 2000 2000 signed_in))) = Some True
   \<and> fst (getSession 2000 2000 signed_in) \<noteq> None"
  using validateSessionSync_verdict [of 2000 2000 signed_in 2000]
  by (simp add: expires_exactly_at_def validateSessionSync_def isBrowser_def getSessionRef_def
       table_get_def no_details_def example_defs)

section \<open>Sign up\<close>

lemma lower_Jane: "ascii_toLowerCase ''Jane@Example.com'' = ''jane@example.com''"
  by code_simp

lemma lower_JANE: "ascii_toLowerCase ''JANE@EXAMPLE.COM'' = ''jane@example.com''"
  by code_simp

lemma lower_nobody: "ascii_toLowerCase ''nobody@example.com'' = ''nobody@example.com''"
  by code_simp

lemma setSessionRef_in_browser:
  "browser w \<Longrightarrow>
     setSessionRef ref accepted now w =
       w\<lparr>sessionSlot := (if accepted then Some ref else sessionSlot w),
         cookie := Some \<lparr>cookie_value = token ref,
                         cookie_expires = whole_second (now + days_ms 7)\<rparr>\<rparr>"
  by (simp add: setSessionRef_def setAuthCookie_def)

text \<open>When sign-up succeeds, and what it then returns and writes.\<close>

lemma signUpEmail_success:
  assumes br: "isBrowser w"
    and sub: "subtle w = Some digest"
    and new_email: "\<forall>u\<in>set (users w). user_email u \<noteq> toLowerCase w (signup_email d)"
    and fresh_user: "\<forall>u\<in>set (users w). user_id u \<noteq> uuid_user ue"
    and fresh_session: "\<forall>s\<in>set (sessions w). session_id s \<noteq> uuid_session se"
  shows "signUpEmail ue se d w =
     (Inr \<lparr>result_user = new_user w ue (digest (signup_password d)) d,
           result_session = new_session se (uuid_user ue)\<rparr>,
      w\<lparr>users := insort_key user_id (new_user w ue (digest (signup_password d)) d) (users w),
        sessions := insort_key session_id (new_session se (uuid_user ue)) (sessions w),
        sessionSlot := (if ref_write_ok se then Some (new_ref se) else sessionSlot w),
        cookie := Some \<lparr>cookie_value = gen_token se,
                        cookie_expires = whole_second (now_cookie se + days_ms 7)\<rparr>\<rparr>)"
proof -
  have no_existing:
    "first (where_equals user_email (toLowerCase w (signup_email d)) (users w)) = None"
    using new_email by (simp add: first_where_equals_None_iff)
  have hash: "hashPassword w (signup_password d) = Inr (digest (signup_password d))"
    using sub by (simp add: hashPassword_def)
  have add_user: "table_add user_id (new_user w ue (digest (signup_password d)) d) (users w)
      = Inr (insort_key user_id (new_user w ue (digest (signup_password d)) d) (users w))"
    using fresh_user by (intro table_add_fresh) (simp add: new_user_def)
  have add_session: "table_add session_id (new_session se (uuid_user ue)) (sessions w)
      = Inr (insort_key session_id (new_session se (uuid_user ue)) (sessions w))"
    using fresh_session by (intro table_add_fresh) (simp add: new_session_def)
  from br have b: "browser w" by (simp add: isBrowser_def)
  show ?thesis
    unfolding signUpEmail_def
    using br no_existing hash b
      add_user[unfolded new_user_def] add_session[unfolded new_session_def days_ms_def]
    by (simp add: new_user_def new_session_def new_ref_def days_ms_def Let_def
          setSessionRef_in_browser)
qed

lemma signUpEmail_InrD:
  assumes ok: "signUpEmail ue se d w = (Inr r, w1)"
  shows "\<exists>h. isBrowser w
       \<and> first (where_equals user_email (toLowerCase w (signup_email d)) (users w)) = None
       \<and> hashPassword w (signup_password d) = Inr h
       \<and> r = \<lparr>result_user = new_user w ue h d,
               result_session = new_session se (uuid_user ue)\<rparr>
       \<and> w1 = w\<lparr>users := insort_key user_id (new_user w ue h d) (users w),
                 sessions := insort_key session_id (new_session se (uuid_user ue)) (sessions w),
                 sessionSlot := (if ref_write_ok se then Some (new_ref se) else sessionSlot w),
                 cookie := Some \<lparr>cookie_value = gen_token se,
                                 cookie_expires = whole_second (now_cookie se + days_ms 7)\<rparr>\<rparr>"
  using ok unfolding signUpEmail_def table_add_def
  by (auto simp: Let_def new_user_def new_session_def new_ref_def days_ms_def isBrowser_def
        setSessionRef_in_browser
      split: if_splits option.splits sum.splits)

lemma signUp_example:
  "signUpEmail jane_user_env jane_session_env jane_signup anonymous
     = (Inr \<lparr>result_user = jane, result_session = jane_session\<rparr>, signed_in)"
  by (simp add: signUpEmail_def isBrowser_def first_def where_equals_def hashPassword_def
        table_add_def table_get_def setSessionRef_def setAuthCookie_def days_ms_def
        whole_second_def demo_digest_def lower_Jane Let_def example_defs signup_example_defs)

text \<open>
  Claim C4, as stated, fails: when \<^verbatim>\<open>localStorage.setItem\<close> throws (the quota),
  \<^verbatim>\<open>saveToLocalStorage\<close> catches the error and \<^verbatim>\<open>setSessionRef\<close> ignores its
  \<^verbatim>\<open>false\<close>. The sign-up below resolves with its user and session, no reference is
  stored, and the \<^verbatim>\<open>getSession\<close> that follows returns \<^verbatim>\<open>null\<close>.
\<close>

theorem signUp_without_stored_reference:
  "fst (signUpEmail jane_user_env (jane_session_env\<lparr>ref_write_ok := False\<rparr>) jane_signup
          anonymous)
     = Inr \<lparr>result_user = jane, result_session = jane_session\<rparr>
   \<and> sessionSlot (snd (signUpEmail jane_user_env (jane_session_env\<lparr>ref_write_ok := False\<rparr>)
          jane_signup anonymous)) = None
   \<and> fst (getSession 1500 1500
          (snd (signUpEmail jane_user_env (jane_session_env\<lparr>ref_write_ok := False\<rparr>)
             jane_signup anonymous))) = None"
  by (simp add: signUpEmail_def getSession_def getSessionRef_def isBrowser_def first_def
        where_equals_def hashPassword_def table_add_def table_get_def setSessionRef_def
        setAuthCookie_def days_ms_def whole_second_def demo_digest_def lower_Jane Let_def
        example_defs signup_example_defs)

text \<open>
  Claim C4, amended. In a browser where the digest is available, for a sign-up input whose
  lower-cased email no stored user has, and with identifiers from
  \<^verbatim>\<open>crypto.randomUUID()\<close> that are not yet keys of their tables, \<^verbatim>\<open>signUpEmail\<close>
  succeeds. The user it returns has the lower-cased email, the session it creates expires
  7 days after the \<^verbatim>\<open>Date.now()\<close> of its creation, and the cookie is in place when it
  returns. Provided localStorage accepted the write of the reference, the reference is in
  place too, and a \<^verbatim>\<open>getSession\<close> that follows before that expiry returns the session
  and the new user, with the lower-cased email and without a \<^verbatim>\<open>passwordHash\<close>
  property.
\<close>

theorem signUp_then_getSession:
  assumes br: "isBrowser w"
    and sub: "subtle w = Some digest"
    and new_email: "\<forall>u\<in>set (users w). user_email u \<noteq> toLowerCase w (signup_email d)"
    and fresh_user: "\<forall>u\<in>set (users w). user_id u \<noteq> uuid_user ue"
    and fresh_session: "\<forall>s\<in>set (sessions w). session_id s \<noteq> uuid_session se"
    and soon: "now \<le> date_now se + days_ms 7"
  shows "\<exists>r w1.
       signUpEmail ue se d w = (Inr r, w1)
     \<and> user_email (result_user r) = toLowerCase w (signup_email d)
     \<and> session_expiresAt (result_session r) = date_now se + days_ms 7
     \<and> cookie w1 = Some \<lparr>cookie_value = session_token (result_session r),
                          cookie_expires = whole_second (now_cookie se + days_ms 7)\<rparr>
     \<and> (ref_write_ok se \<longrightarrow>
          sessionSlot w1 = Some \<lparr>sessionId = session_id (result_session r),
                                  token = session_token (result_session r),
                                  activeOrgId = None\<rparr>
        \<and> (\<exists>sd w2. getSession now cnow w1 = (Some sd, w2)
             \<and> su_id (sd_user sd) = user_id (result_user r)
             \<and> su_email (sd_user sd) = toLowerCase w (signup_email d)
             \<and> su_passwordHash (sd_user sd) = None
             \<and> sd_session sd = result_session r))"
proof -
  define U where "U = new_user w ue (digest (signup_password d)) d"
  define S where "S = new_session se (uuid_user ue)"
  define w1 where "w1 = w\<lparr>users := insort_key user_id U (users w),
        sessions := insort_key session_id S (sessions w),
        sessionSlot := (if ref_write_ok se then Some (new_ref se) else sessionSlot w),
        cookie := Some \<lparr>cookie_value = gen_token se,
                        cookie_expires = whole_second (now_cookie se + days_ms 7)\<rparr>\<rparr>"
  have up: "signUpEmail ue se d w = (Inr \<lparr>result_user = U, result_session = S\<rparr>, w1)"
    unfolding U_def S_def w1_def
    by (rule signUpEmail_success[OF br sub new_email fresh_user fresh_session])
  have b1: "browser w1" using br by (simp add: w1_def isBrowser_def)
  have basics: "user_email U = toLowerCase w (signup_email d)
      \<and> session_expiresAt S = date_now se + days_ms 7
      \<and> cookie w1 = Some \<lparr>cookie_value = session_token S,
                            cookie_expires = whole_second (now_cookie se + days_ms 7)\<rparr>"
    by (simp add: U_def S_def w1_def new_user_def new_session_def)
  have stored: "sessionSlot w1 = Some \<lparr>sessionId = session_id S, token = session_token S,
                                       activeOrgId = None\<rparr>
      \<and> (\<exists>sd w2. getSession now cnow w1 = (Some sd, w2)
             \<and> su_id (sd_user sd) = user_id U
             \<and> su_email (sd_user sd) = toLowerCase w (signup_email d)
             \<and> su_passwordHash (sd_user sd) = None
             \<and> sd_session sd = S)"
    if accepted: "ref_write_ok se"
  proof -
    have slot1: "sessionSlot w1 = Some (new_ref se)"
      using accepted by (simp add: w1_def)
    have ref1: "getSessionRef w1 = Some (new_ref se)"
      using b1 slot1 by (simp add: getSessionRef_def)
    have "find (\<lambda>s. session_id s = session_id S) (sessions w) = None"
      using fresh_session by (simp add: find_None_iff S_def new_session_def)
    then have sess: "table_get session_id (sessions w1) (sessionId (new_ref se)) = Some S"
      using find_insort_key_new[of session_id S "sessions w"]
      by (simp add: table_get_def w1_def new_ref_def S_def new_session_def)
    have "find (\<lambda>u. user_id u = user_id U) (users w) = None"
      using fresh_user by (simp add: find_None_iff U_def new_user_def)
    then have usr: "table_get user_id (users w1) (session_userId S) = Some U"
      using find_insort_key_new[of user_id U "users w"]
      by (simp add: table_get_def w1_def S_def new_session_def U_def new_user_def)
    have get: "getSession now cnow w1 =
        (Some \<lparr>sd_user = safeUser U, sd_session = S\<rparr>,
         setAuthCookie (session_token S) 7 cnow w1)"
      unfolding getSession_def using b1 ref1 sess usr soon
      by (simp add: isBrowser_def S_def new_session_def new_ref_def)
    show ?thesis
      using slot1 get
      by (simp add: safeUser_def U_def S_def new_user_def new_session_def new_ref_def)
  qed
  show ?thesis
    apply (rule exI[of _ "\<lparr>result_user = U, result_session = S\<rparr>"])
    apply (rule exI[of _ w1])
    using up basics stored by simp
qed

theorem signUp_then_getSession_witness:
  "isBrowser anonymous \<and> subtle anonymous = Some demo_digest
   \<and> users anonymous = [] \<and> sessions anonymous = []
   \<and> (1500::int) \<le> date_now jane_session_env + days_ms 7
   \<and> ref_write_ok jane_session_env
   \<and> (\<exists>r w1.
       signUpEmail jane_user_env jane_session_env jane_signup anonymous = (Inr r, w1)
     \<and> user_email (result_user r) = ''jane@example.com''
     \<and> session_expiresAt (result_session r) = 604801000
     \<and> cookie w1 = Some \<lparr>cookie_value = session_token (result_session r),
                          cookie_expires = 604801000\<rparr>
     \<and> sessionSlot w1 = Some \<lparr>sessionId = session_id (result_session r),
                               token = session_token (result_session r), activeOrgId = None\<rparr>
     \<and> (\<exists>sd w2. getSession 1500 1500 w1 = (Some sd, w2)
          \<and> su_id (sd_user sd) = user_id (result_user r)
          \<and> su_email (sd_user sd) = ''jane@example.com''
          \<and> su_passwordHash (sd_user sd) = None
          \<and> sd_session sd = result_session r))"
  using signUp_then_getSession
    [of anonymous demo_digest jane_signup jane_user_env jane_session_env 1500 1500]
  by (simp add: isBrowser_def days_ms_def whole_second_def lower_Jane anonymous_def
        signup_example_defs)

text \<open>
  Claim C5. After a sign-up that succeeded, a second sign-up whose email has the same
  lower-casing, whatever the casing of either, is rejected with
  \<^verbatim>\<open>Email already registered\<close> and changes nothing: the users table holds, under that
  email, the one row the first call created, and users and sessions have grown by the one
  row each that the first call added.
\<close>

theorem duplicate_signUp_rejected:
  assumes first_ok: "signUpEmail ue1 se1 d1 w = (Inr r1, w1)"
    and same: "toLowerCase w (signup_email d2) = toLowerCase w (signup_email d1)"
  shows "signUpEmail ue2 se2 d2 w1 = (Inl (Error ''Email already registered''), w1)
       \<and> where_equals user_email (toLowerCase w (signup_email d1)) (users w1)
           = [result_user r1]
       \<and> length (users w1) = Suc (length (users w))
       \<and> length (sessions w1) = Suc (length (sessions w))"
proof -
  from signUpEmail_InrD[OF first_ok] obtain h where
    br: "isBrowser w"
    and none: "first (where_equals user_email (toLowerCase w (signup_email d1)) (users w)) = None"
    and r1: "r1 = \<lparr>result_user = new_user w ue1 h d1,
                     result_session = new_session se1 (uuid_user ue1)\<rparr>"
    and w1: "w1 = w\<lparr>users := insort_key user_id (new_user w ue1 h d1) (users w),
                 sessions := insort_key session_id (new_session se1 (uuid_user ue1)) (sessions w),
                 sessionSlot := (if ref_write_ok se1 then Some (new_ref se1) else sessionSlot w),
                 cookie := Some \<lparr>cookie_value = gen_token se1,
                                 cookie_expires = whole_second (now_cookie se1 + days_ms 7)\<rparr>\<rparr>"
    by blast
  from none have empty:
    "filter (\<lambda>u. user_email u = toLowerCase w (signup_email d1)) (users w) = []"
    by (simp add: first_where_equals_None_iff filter_empty_conv)
  have one: "where_equals user_email (toLowerCase w (signup_email d1)) (users w1)
      = [result_user r1]"
    unfolding where_equals_def w1 r1
    by (simp add: filter_insort_key_single[OF empty] new_user_def)
  have br1: "isBrowser w1"
    using br by (simp add: w1 isBrowser_def)
  have lower1: "toLowerCase w1 = toLowerCase w"
    by (simp add: w1)
  have rejected: "signUpEmail ue2 se2 d2 w1 = (Inl (Error ''Email already registered''), w1)"
    unfolding signUpEmail_def using br1 one same lower1 by (simp add: first_def)
  have lens: "length (users w1) = Suc (length (users w))
      \<and> length (sessions w1) = Suc (length (sessions w))"
    by (simp add: w1)
  show ?thesis using rejected one lens by simp
qed

theorem duplicate_signUp_rejected_witness:
  "signUpEmail jane_user_env jane_session_env jane_signup anonymous
     = (Inr \<lparr>result_user = jane, result_session = jane_session\<rparr>, signed_in)
   \<and> toLowerCase anonymous ''JANE@EXAMPLE.COM''
       = toLowerCase anonymous (signup_email jane_signup)
   \<and> signUpEmail jane_user_env jane_session_env
        (jane_signup\<lparr>signup_email := ''JANE@EXAMPLE.COM''\<rparr>) signed_in
       = (Inl (Error ''Email already registered''), signed_in)
   \<and> where_equals user_email ''jane@example.com'' (users signed_in) = [jane]
   \<and> length (users signed_in) = Suc (length (users anonymous))
   \<and> length (sessions signed_in) = Suc (length (sessions anonymous))"
  using duplicate_signUp_rejected
    [of jane_user_env jane_session_env jane_signup anonymous
        "\<lparr>result_user = jane, result_session = jane_session\<rparr>" signed_in
        "jane_signup\<lparr>signup_email := ''JANE@EXAMPLE.COM''\<rparr>" jane_user_env jane_session_env]
    signUp_example
  by (simp add: lower_Jane lower_JANE jane_signup_def anonymous_def)

section \<open>Sign in\<close>

text \<open>
  Claim C6. In a browser, a sign-in whose lower-cased email no stored user has, or whose
  password digest differs from the hash stored with the user found, is rejected with
  \<^verbatim>\<open>Invalid email or password\<close>, and the world is as before: no session row, no
  reference, no cookie is written.
\<close>

theorem signIn_invalid_credentials:
  assumes br: "isBrowser w"
    and bad: "(\<forall>u\<in>set (users w). user_email u \<noteq> toLowerCase w (signin_email d))
       \<or> (\<exists>u digest. first (where_equals user_email (toLowerCase w (signin_email d)) (users w)) = Some u
              \<and> subtle w = Some digest
              \<and> digest (signin_password d) \<noteq> user_passwordHash u)"
  shows "signInEmail se d w = (Inl (Error ''Invalid email or password''), w)"
  using bad
proof
  assume "\<forall>u\<in>set (users w). user_email u \<noteq> toLowerCase w (signin_email d)"
  then have "first (where_equals user_email (toLowerCase w (signin_email d)) (users w)) = None"
    by (simp add: first_where_equals_None_iff)
  then show ?thesis using br by (simp add: signInEmail_def)
next
  assume "\<exists>u digest. first (where_equals user_email (toLowerCase w (signin_email d)) (users w)) = Some u
              \<and> subtle w = Some digest
              \<and> digest (signin_password d) \<noteq> user_passwordHash u"
  then obtain u digest where
    "first (where_equals user_email (toLowerCase w (signin_email d)) (users w)) = Some u"
    "subtle w = Some digest" "digest (signin_password d) \<noteq> user_passwordHash u"
    by blast
  then show ?thesis using br by (simp add: signInEmail_def hashPassword_def)
qed

theorem signIn_invalid_credentials_witness:
  "isBrowser anonymous \<and> users anonymous = []
   \<and> signInEmail jane_session_env
        \<lparr>signin_email = ''nobody@example.com'', signin_password = ''x''\<rparr> anonymous
       = (Inl (Error ''Invalid email or password''), anonymous)
   \<and> isBrowser signed_in
   \<and> first (where_equals user_email (ascii_toLowerCase ''Jane@Example.com'') (users signed_in))
       = Some jane
   \<and> subtle signed_in = Some demo_digest
   \<and> demo_digest ''wrong'' \<noteq> user_passwordHash jane
   \<and> signInEmail second_session_env
        \<lparr>signin_email = ''Jane@Example.com'', signin_password = ''wrong''\<rparr> signed_in
       = (Inl (Error ''Invalid email or password''), signed_in)"
  using signIn_invalid_credentials
    [of anonymous "\<lparr>signin_email = ''nobody@example.com'', signin_password = ''x''\<rparr>"
        jane_session_env]
    signIn_invalid_credentials
    [of signed_in "\<lparr>signin_email = ''Jane@Example.com'', signin_password = ''wrong''\<rparr>"
        second_session_env]
  by (simp add: isBrowser_def first_def where_equals_def lower_Jane demo_digest_def
        example_defs)








section \<open>Deleting a user\<close>

text \<open>
  Claim C7. If no stored user has the lower-cased email, \<^verbatim>\<open>deleteUserByEmail\<close> changes
  nothing. Otherwise, in a browser, it takes the first user with that email and removes the
  row of that user's id, the sessions of that id and the memberships of that id; every row of
  another id stays, and organizations, application tables, session reference and cookie are
  untouched.
\<close>

theorem deleteUserByEmail_cascade:
  "((\<forall>u\<in>set (users w). user_email u \<noteq> toLowerCase w e) \<longrightarrow> deleteUserByEmail e w = w)
   \<and> (isBrowser w \<longrightarrow> (\<exists>u\<in>set (users w). user_email u = toLowerCase w e) \<longrightarrow>
        (\<exists>u\<in>set (users w). user_email u = toLowerCase w e
           \<and> first (where_equals user_email (toLowerCase w e) (users w)) = Some u
           \<and> deleteUserByEmail e w =
               w\<lparr>users := filter (\<lambda>x. user_id x \<noteq> user_id u) (users w),
                 sessions := filter (\<lambda>s. session_userId s \<noteq> user_id u) (sessions w),
                 members := filter (\<lambda>m. member_userId m \<noteq> user_id u) (members w)\<rparr>
           \<and> organizations (deleteUserByEmail e w) = organizations w
           \<and> appTables (deleteUserByEmail e w) = appTables w
           \<and> sessionSlot (deleteUserByEmail e w) = sessionSlot w
           \<and> cookie (deleteUserByEmail e w) = cookie w))"
proof (intro conjI impI)
  assume "\<forall>u\<in>set (users w). user_email u \<noteq> toLowerCase w e"
  then have "first (where_equals user_email (toLowerCase w e) (users w)) = None"
    by (simp add: first_where_equals_None_iff)
  then show "deleteUserByEmail e w = w"
    by (simp add: deleteUserByEmail_def)
next
  assume br: "isBrowser w" and ex: "\<exists>u\<in>set (users w). user_email u = toLowerCase w e"
  from ex have "first (where_equals user_email (toLowerCase w e) (users w)) \<noteq> None"
    by (simp add: first_where_equals_None_iff)
  then obtain u where u: "first (where_equals user_email (toLowerCase w e) (users w)) = Some u"
    by blast
  from first_where_equals_SomeD[OF u] have mem: "u \<in> set (users w)" "user_email u = toLowerCase w e"
    by simp_all
  have del: "deleteUserByEmail e w =
               w\<lparr>users := filter (\<lambda>x. user_id x \<noteq> user_id u) (users w),
                 sessions := filter (\<lambda>s. session_userId s \<noteq> user_id u) (sessions w),
                 members := filter (\<lambda>m. member_userId m \<noteq> user_id u) (members w)\<rparr>"
    using br u
    by (simp add: deleteUserByEmail_def where_equals_delete_def table_delete_def)
  show "\<exists>u\<in>set (users w). user_email u = toLowerCase w e
           \<and> first (where_equals user_email (toLowerCase w e) (users w)) = Some u
           \<and> deleteUserByEmail e w =
               w\<lparr>users := filter (\<lambda>x. user_id x \<noteq> user_id u) (users w),
                 sessions := filter (\<lambda>s. session_userId s \<noteq> user_id u) (sessions w),
                 members := filter (\<lambda>m. member_userId m \<noteq> user_id u) (members w)\<rparr>
           \<and> organizations (deleteUserByEmail e w) = organizations w
           \<and> appTables (deleteUserByEmail e w) = appTables w
           \<and> sessionSlot (deleteUserByEmail e w) = sessionSlot w
           \<and> cookie (deleteUserByEmail e w) = cookie w"
    using mem u del by (intro bexI[of _ u]) simp_all
qed

theorem deleteUserByEmail_cascade_witness:
  "isBrowser office
   \<and> jane \<in> set (users office) \<and> user_email jane = ascii_toLowerCase ''Jane@Example.com''
   \<and> deleteUserByEmail ''Jane@Example.com'' office
       = office\<lparr>users := [bob], sessions := [bob_session], members := [bob_member]\<rparr>
   \<and> organizations (deleteUserByEmail ''Jane@Example.com'' office) = [firm]
   \<and> ascii_toLowerCase ''nobody@example.com'' = ''nobody@example.com''
   \<and> deleteUserByEmail ''nobody@example.com'' office = office"
  using deleteUserByEmail_cascade [of office "''Jane@Example.com''"]
    deleteUserByEmail_cascade [of office "''nobody@example.com''"]
  by (simp add: isBrowser_def first_def where_equals_def lower_Jane lower_nobody
        example_defs office_defs)

section \<open>Outside the browser\<close>

text \<open>
  Claim C9. Where \<^verbatim>\<open>window\<close> is undefined, \<^verbatim>\<open>getSession\<close> and
  \<^verbatim>\<open>getActiveOrganization\<close> return \<^verbatim>\<open>null\<close>, \<^verbatim>\<open>getOrganizations\<close> and
  \<^verbatim>\<open>listAllUsers\<close> return the empty list, \<^verbatim>\<open>validateSessionSync\<close> returns
  \<^verbatim>\<open>valid: false\<close> with the error \<^verbatim>\<open>Not in browser\<close>, and \<^verbatim>\<open>signUpEmail\<close>,
  \<^verbatim>\<open>signInEmail\<close> and \<^verbatim>\<open>createOrganization\<close> throw
  \<^verbatim>\<open>Auth operations require browser\<close>; each leaves the world as it was.
\<close>

theorem outside_browser:
  assumes nb: "\<not> isBrowser w"
  shows "getSession now cnow w = (None, w)
       \<and> getOrganizations userId w = ([], w)
       \<and> getActiveOrganization w = (None, w)
       \<and> listAllUsers w = ([], w)
       \<and> validateSessionSync now1 now2 w
           = (\<lparr>valid = False, details = no_details\<lparr>d_error := Some ''Not in browser''\<rparr>\<rparr>, w)
       \<and> signUpEmail ue se sud w = (Inl (Error ''Auth operations require browser''), w)
       \<and> signInEmail se' sid w = (Inl (Error ''Auth operations require browser''), w)
       \<and> createOrganization oe od userId w = (Inl (Error ''Auth operations require browser''), w)"
  using nb
  by (simp add: getSession_def getOrganizations_def getActiveOrganization_def listAllUsers_def
        validateSessionSync_def signUpEmail_def signInEmail_def createOrganization_def)

theorem outside_browser_witness:
  "\<not> isBrowser server_side
   \<and> getSession 2000 2000 server_side = (None, server_side)
   \<and> getOrganizations ''u-1'' server_side = ([], server_side)
   \<and> getActiveOrganization server_side = (None, server_side)
   \<and> listAllUsers server_side = ([], server_side)
   \<and> valid (fst (validateSessionSync 2000 2000 server_side)) = False
   \<and> snd (validateSessionSync 2000 2000 server_side) = server_side
   \<and> signUpEmail jane_user_env jane_session_env jane_signup server_side
       = (Inl (Error ''Auth operations require browser''), server_side)
   \<and> signInEmail second_session_env jane_signin server_side
       = (Inl (Error ''Auth operations require browser''), server_side)
   \<and> createOrganization
        \<lparr>uuid_org = ''o-2'', now_org_created = 6000, uuid_member = ''m-3'',
         now_member_created = 6000, org_ref_write_ok = True,
          now_org_cookie = 6000\<rparr>
        \<lparr>co_name = ''Solo'', co_slug = ''solo'', co_logo = None\<rparr> ''u-1'' server_side
       = (Inl (Error ''Auth operations require browser''), server_side)"
  using outside_browser
    [where w = server_side and now = 2000 and cnow = 2000 and userId = "''u-1''"
       and ?now1.0 = 2000 and ?now2.0 = 2000
       and ue = jane_user_env and se = jane_session_env and sud = jane_signup
       and se' = second_session_env and sid = jane_signin
       and oe = "\<lparr>uuid_org = ''o-2'', now_org_created = 6000, uuid_member = ''m-3'',
          now_member_created = 6000, org_ref_write_ok = True,
          now_org_cookie = 6000\<rparr>"
       and od = "\<lparr>co_name = ''Solo'', co_slug = ''solo'', co_logo = None\<rparr>"]
  by (simp add: isBrowser_def server_side_def signed_in_def)

section \<open>The date round trip of the localStorage helpers\<close>

lemma filter_assignable_all:
  "list_all (\<lambda>(key, v). assignable key \<and> Q v) kvs
     \<Longrightarrow> filter (\<lambda>(key, v). assignable key) kvs = kvs"
  by (induction kvs) auto

lemma filter_assignable_map:
  "filter (\<lambda>(key, v). assignable key) (map (\<lambda>(key, v). (key, f v)) kvs)
     = map (\<lambda>(key, v). (key, f v)) (filter (\<lambda>(key, v). assignable key) kvs)"
  by (induction kvs) auto

lemma dates_in_date_fields_set:
  "set ds = set ds' \<Longrightarrow> dates_in_date_fields ds v = dates_in_date_fields ds' v"
proof (induction v)
  case (JArr xs)
  then show ?case by (simp add: list_all_iff)
next
  case (JObj kvs)
  have "\<And>key v. (key, v) \<in> set kvs \<Longrightarrow>
      (case v of JDate t \<Rightarrow> key \<in> set ds
       | _ \<Rightarrow> key \<notin> set ds \<and> dates_in_date_fields ds v)
      = (case v of JDate t \<Rightarrow> key \<in> set ds'
         | _ \<Rightarrow> key \<notin> set ds' \<and> dates_in_date_fields ds' v)"
  proof -
    fix key v
    assume mem: "(key, v) \<in> set kvs"
    have "dates_in_date_fields ds v = dates_in_date_fields ds' v"
      using JObj.IH[OF mem] JObj.prems by simp
    then show "(case v of JDate t \<Rightarrow> key \<in> set ds
       | _ \<Rightarrow> key \<notin> set ds \<and> dates_in_date_fields ds v)
      = (case v of JDate t \<Rightarrow> key \<in> set ds'
         | _ \<Rightarrow> key \<notin> set ds' \<and> dates_in_date_fields ds' v)"
      using JObj.prems by (cases v) simp_all
  qed
  then show ?case by (auto simp: list_all_iff)
qed simp_all

lemma deserialize_entry:
  assumes IH: "dates_in_date_fields (allDateFields dfs) v
          \<Longrightarrow> \<forall>t\<in>set (dates_of v). parseDate (toISOString t) = Some t
          \<Longrightarrow> deserializeDates parseDate (serializeDates toISOString v) dfs = v"
    and shape: "case v of JDate t \<Rightarrow> key \<in> set (allDateFields dfs)
                 | _ \<Rightarrow> key \<notin> set (allDateFields dfs)
                        \<and> dates_in_date_fields (allDateFields dfs) v"
    and dates: "\<forall>t\<in>set (dates_of v). parseDate (toISOString t) = Some t"
  shows "(case serializeDates toISOString v of
            JStr str \<Rightarrow>
              if key \<in> set (allDateFields dfs)
              then (key, case parseDate str of None \<Rightarrow> serializeDates toISOString v
                         | Some parsed \<Rightarrow> JDate parsed)
              else (key, serializeDates toISOString v)
          | _ \<Rightarrow>
              if typeof_object (serializeDates toISOString v)
              then (key, deserializeDates parseDate (serializeDates toISOString v) dfs)
              else (key, serializeDates toISOString v)) = (key, v)"
proof (cases v)
  case (JDate t)
  then show ?thesis using shape dates by simp
next
  case (JArr xs)
  then show ?thesis using IH shape dates by simp
next
  case (JObj kvs)
  then show ?thesis using IH shape dates by simp
qed (use shape in simp_all)

lemma serialize_deserialize:
  "assignable_keys v
     \<Longrightarrow> dates_in_date_fields (allDateFields dfs) v
     \<Longrightarrow> \<forall>t\<in>set (dates_of v). parseDate (toISOString t) = Some t
     \<Longrightarrow> deserializeDates parseDate (serializeDates toISOString v) dfs = v"
proof (induction v)
  case (JArr xs)
  then show ?case
    by (auto simp: list_all_iff intro!: map_idI)
next
  case (JObj kvs)
  have keep: "filter (\<lambda>(key, v). assignable key) kvs = kvs"
    using JObj.prems(1) by (simp add: filter_assignable_all)
  have "map (\<lambda>(key, v).
          (case v of
             JStr str \<Rightarrow>
               if key \<in> set (allDateFields dfs)
               then (key, case parseDate str of None \<Rightarrow> v | Some parsed \<Rightarrow> JDate parsed)
               else (key, v)
           | _ \<Rightarrow>
               if typeof_object v then (key, deserializeDates parseDate v dfs)
               else (key, v)))
        (map (\<lambda>(key, v). (key, serializeDates toISOString v)) kvs) = kvs"
  proof (subst map_map, rule map_idI)
    fix x
    assume xmem: "x \<in> set kvs"
    obtain key v where x: "x = (key, v)" by (cases x)
    from xmem x have mem: "(key, v) \<in> set kvs" by simp
    have keys: "assignable_keys v"
      using JObj.prems(1) mem by (auto simp: list_all_iff)
    have IH: "dates_in_date_fields (allDateFields dfs) v
          \<Longrightarrow> \<forall>t\<in>set (dates_of v). parseDate (toISOString t) = Some t
          \<Longrightarrow> deserializeDates parseDate (serializeDates toISOString v) dfs = v"
      using JObj.IH[OF mem] keys by simp
    have shape: "case v of JDate t \<Rightarrow> key \<in> set (allDateFields dfs)
                 | _ \<Rightarrow> key \<notin> set (allDateFields dfs)
                        \<and> dates_in_date_fields (allDateFields dfs) v"
      using JObj.prems(2) mem by (auto simp: list_all_iff)
    have dates: "\<forall>t\<in>set (dates_of v). parseDate (toISOString t) = Some t"
      using JObj.prems(3) mem by auto
    show "((\<lambda>(key, v).
          (case v of
             JStr str \<Rightarrow>
               if key \<in> set (allDateFields dfs)
               then (key, case parseDate str of None \<Rightarrow> v | Some parsed \<Rightarrow> JDate parsed)
               else (key, v)
           | _ \<Rightarrow>
               if typeof_object v then (key, deserializeDates parseDate v dfs)
               else (key, v))) \<circ> (\<lambda>(key, v). (key, serializeDates toISOString v))) x = x"
      unfolding x o_apply prod.case
      by (rule deserialize_entry[OF IH shape dates])
  qed
  then show ?case
    by (simp add: filter_assignable_map keep)
qed simp_all

text \<open>
  Claim C8 asks that every JSON-serializable value whose dates sit exactly in the date
  fields come back from \<^verbatim>\<open>loadFromLocalStorage\<close> as it went into
  \<^verbatim>\<open>saveToLocalStorage\<close>. The object \<open>proto_value\<close> has no date at all, and two own
  properties, \<^verbatim>\<open>__proto__\<close> and \<^verbatim>\<open>b\<close>. Saving succeeds, but the copy that
  \<^verbatim>\<open>serializeDates\<close> builds with \<^verbatim>\<open>result[key] = ...\<close> has no own property
  \<^verbatim>\<open>__proto__\<close>; what is stored and what is loaded is \<^verbatim>\<open>{"b": 2}\<close>, not the
  value saved. For values without such a key the round trip holds, see \<open>save_then_load\<close>
  below.
\<close>

theorem save_then_load_drops_proto_key:
  "dates_in_date_fields (defaultDateFields @ []) proto_value
   \<and> saveToLocalStorage demo_toISOString ''iolta:demo'' proto_value demo_page
       = (True, demo_page\<lparr>localStorage :=
                  (localStorage demo_page)(''iolta:demo'' \<mapsto> Json (JObj [(''b'', JNum 2)]))\<rparr>)
   \<and> loadFromLocalStorage demo_parseDate ''iolta:demo'' [] None
        (snd (saveToLocalStorage demo_toISOString ''iolta:demo'' proto_value demo_page))
       = JObj [(''b'', JNum 2)]
   \<and> JObj [(''b'', JNum 2)] \<noteq> proto_value"
  by (simp add: saveToLocalStorage_def loadFromLocalStorage_def assignable_def
        defaultDateFields_def allDateFields_def proto_value_def demo_page_def)

text \<open>
  The round trip where it holds. On a page (\<^verbatim>\<open>window\<close> defined) whose localStorage
  accepts the write, for a value in which no object has an own property
  \<^verbatim>\<open>__proto__\<close>, every field named in the date-field set (the default names and the
  caller's) holds a date and dates occur in such fields only, and with an ISO text from
  which the platform's parser recovers each date of the value, \<^verbatim>\<open>saveToLocalStorage\<close>
  returns \<^verbatim>\<open>true\<close> and \<^verbatim>\<open>loadFromLocalStorage\<close> with those \<^verbatim>\<open>dateFields\<close>
  then returns the value, dates included. On an absent key \<^verbatim>\<open>loadFromLocalStorage\<close>
  returns \<^verbatim>\<open>null\<close>.
\<close>

lemma save_then_load:
  "(window_defined p \<longrightarrow> setItem_ok p key (serializeDates toISOString v) \<longrightarrow>
      assignable_keys v \<longrightarrow>
      dates_in_date_fields (defaultDateFields @ dateFields) v \<longrightarrow>
      (\<forall>t\<in>set (dates_of v). parseDate (toISOString t) = Some t) \<longrightarrow>
        fst (saveToLocalStorage toISOString key v p) = True
      \<and> loadFromLocalStorage parseDate key dateFields None
            (snd (saveToLocalStorage toISOString key v p)) = v)
   \<and> (localStorage p key = None \<longrightarrow>
        loadFromLocalStorage parseDate key dateFields validator p = JNull)"
proof (intro conjI impI)
  assume w: "window_defined p" and ok: "setItem_ok p key (serializeDates toISOString v)"
    and keys: "assignable_keys v"
    and shape0: "dates_in_date_fields (defaultDateFields @ dateFields) v"
    and dates: "\<forall>t\<in>set (dates_of v). parseDate (toISOString t) = Some t"
  have shape: "dates_in_date_fields (allDateFields dateFields) v"
    using shape0
      dates_in_date_fields_set[of "allDateFields dateFields" "defaultDateFields @ dateFields" v]
    by (simp add: allDateFields_def)
  have saved: "saveToLocalStorage toISOString key v p =
      (True, p\<lparr>localStorage := (localStorage p)(key \<mapsto> Json (serializeDates toISOString v))\<rparr>)"
    using w ok by (simp add: saveToLocalStorage_def)
  show "fst (saveToLocalStorage toISOString key v p) = True"
    by (simp add: saved)
  show "loadFromLocalStorage parseDate key dateFields None
            (snd (saveToLocalStorage toISOString key v p)) = v"
    using w
    by (simp add: saved loadFromLocalStorage_def serialize_deserialize[OF keys shape dates])
next
  assume "localStorage p key = None"
  then show "loadFromLocalStorage parseDate key dateFields validator p = JNull"
    by (simp add: loadFromLocalStorage_def)
qed

text \<open>An example with a date under the caller's field \<^verbatim>\<open>lastSeen\<close>.\<close>

lemma save_then_load_example:
  "fst (saveToLocalStorage demo_toISOString ''iolta:demo'' demo_value demo_page) = True
   \<and> loadFromLocalStorage demo_parseDate ''iolta:demo'' [''lastSeen''] None
        (snd (saveToLocalStorage demo_toISOString ''iolta:demo'' demo_value demo_page))
       = demo_value
   \<and> loadFromLocalStorage demo_parseDate ''iolta:demo'' [] None
        (snd (saveToLocalStorage demo_toISOString ''iolta:demo'' demo_value demo_page))
       \<noteq> demo_value
   \<and> loadFromLocalStorage demo_parseDate ''iolta:demo'' [''lastSeen''] None demo_page = JNull"
  by (simp add: saveToLocalStorage_def loadFromLocalStorage_def assignable_def
        defaultDateFields_def allDateFields_def demo_value_def demo_page_def
        demo_toISOString_def demo_parseDate_def)

text \<open>
  A session reference has no date field and no key \<^verbatim>\<open>__proto__\<close>: it comes back from
  localStorage as it was saved, which is what the slot \<open>sessionSlot\<close> of the world
  assumes.
\<close>

lemma sessionRef_object_shape:
  "dates_in_date_fields (allDateFields []) (sessionRef_object ref)"
  by (simp add: sessionRef_object_def allDateFields_def defaultDateFields_def
      split: option.splits)

lemma sessionRef_object_keys: "assignable_keys (sessionRef_object ref)"
  by (simp add: sessionRef_object_def assignable_def split: option.splits)

lemma sessionRef_object_dates: "dates_of (sessionRef_object ref) = []"
  by (cases "activeOrgId ref") (simp_all add: sessionRef_object_def)

lemma sessionRef_object_serialized:
  "serializeDates toISOString (sessionRef_object ref) = sessionRef_object ref"
  by (simp add: sessionRef_object_def assignable_def split: option.splits)

lemma sessionRef_survives_storage:
  assumes w: "window_defined p" and ok: "setItem_ok p SESSION (sessionRef_object ref)"
  shows "loadFromLocalStorage parseDate SESSION [] None
           (snd (saveToLocalStorage toISOString SESSION (sessionRef_object ref) p))
         = sessionRef_object ref"
proof -
  have saved: "saveToLocalStorage toISOString SESSION (sessionRef_object ref) p =
      (True, p\<lparr>localStorage := (localStorage p)(SESSION \<mapsto> Json (sessionRef_object ref))\<rparr>)"
    using w ok by (simp add: saveToLocalStorage_def sessionRef_object_serialized)
  have "deserializeDates parseDate (serializeDates toISOString (sessionRef_object ref)) []
      = (sessionRef_object ref :: 'a jsval)"
    by (rule serialize_deserialize)
      (simp_all add: sessionRef_object_keys sessionRef_object_shape sessionRef_object_dates)
  then have restored: "deserializeDates parseDate (sessionRef_object ref) []
      = (sessionRef_object ref :: 'a jsval)"
    by (simp add: sessionRef_object_serialized)
  show ?thesis
    using w by (simp add: saved loadFromLocalStorage_def restored)
qed

end
